theory Spec2Isabelle
  imports Complex_Main "HOL-Library.AList"
begin

section \<open>Values exchanged with the providers\<close>

text \<open>
  The clients work on what \<^verbatim>\<open>response.json()\<close> returns: Python objects built from a
  JSON text. A Python \<^verbatim>\<open>float\<close> is a finite double (modelled by its exact rational
  value), an infinity or a NaN; Python's \<^verbatim>\<open>json\<close> module reads the last two from
  the literals \<^verbatim>\<open>Infinity\<close> and \<^verbatim>\<open>NaN\<close>. A \<^verbatim>\<open>dict\<close> is a list of key/value
  pairs in insertion order; the keys of a Python dict are distinct.
\<close>

datatype pyfloat = FFin rat | FInf bool | FNaN

datatype json =
    JNull
  | JBool bool
  | JInt int
  | JFloat pyfloat
  | JStr string
  | JArr "json list"
  | JObj "(string \<times> json) list"

text \<open>
  A \<^verbatim>\<open>decimal.Decimal\<close>: a finite value (exact, of any precision), an infinity, a quiet
  NaN or a signalling NaN. Decimals that are numerically equal are identified, as Python's
  \<^verbatim>\<open>==\<close> does.
\<close>

datatype decimal = DFin rat | DInf bool | DNaN | DSNaN

subsection \<open>Failures\<close>

text \<open>
  Modelled from the spec: the module \<^verbatim>\<open>custom_exceptions\<close> is imported by both clients
  and is not among the sources. The first five constructors are the failure
  vocabulary of the specification (section 7); \<open>InvalidTokens\<close> carries what the raise
  statement passes: nothing, a list of addresses, or one address. The remaining
  constructors are the built-in exceptions that the Python operations used by the clients
  raise. \<open>NO_LIQUDITY\<close> is the constant of that name imported by \<^verbatim>\<open>birdeye.py\<close>.
\<close>

datatype tokens_arg = NoArgs | TokenList "string list" | Token string

datatype value_error_arg = NO_LIQUDITY | Message

datatype error =
    NoPositionsError
  | InvalidSolanaAddress string
  | InvalidTokens tokens_arg
  | DecimalsNotFoundError
  | NoLiquidityError
  | ValueError value_error_arg
  | TypeError
  | KeyError string
  | AttributeError
  | OverflowError
  | InvalidOperation
  | JSONDecodeError
  | RequestException

subsection \<open>The result contracts\<close>

text \<open>
  Modelled from the spec: \<^verbatim>\<open>PriceInfo\<close> and \<^verbatim>\<open>TokenOverview\<close> come from the module
  \<^verbatim>\<open>common\<close>, which is not among the sources. The fields are those of section 3 of the
  specification, in the order in which \<^verbatim>\<open>birdeye.py\<close> passes them positionally. The
  symbol is stored as the payload gives it, without coercion.
\<close>

record price_info =
  price :: decimal
  liquidity :: decimal

record token_overview =
  price :: decimal
  symbol :: json
  decimals :: int
  lastTradeUnixTime :: int
  liquidity :: decimal
  "supply" :: decimal

subsection \<open>What the clients take from outside\<close>

text \<open>
  The Solana public-key parser, the constants of \<^verbatim>\<open>vars.constants\<close> and of \<^verbatim>\<open>Config\<close>,
  and the parts of Python's numeric constructors that read text, sequences or integers
  beyond the exactly representable range of a double are parameters of the model.
  Each of them returns \<open>None\<close> where the Python function raises:
  \<^verbatim>\<open>Pubkey.from_string\<close>, \<^verbatim>\<open>int\<close> and \<^verbatim>\<open>float\<close> of a string raise \<^verbatim>\<open>ValueError\<close>,
  \<^verbatim>\<open>Decimal\<close> of a string raises \<^verbatim>\<open>InvalidOperation\<close> and of a sequence
  \<^verbatim>\<open>ValueError\<close>, \<^verbatim>\<open>float\<close> of an integer too large for a double raises
  \<^verbatim>\<open>OverflowError\<close>.
\<close>

record pylib =
  Pubkey_from_string :: "string \<Rightarrow> unit option"
  SOL_MINT :: string
  BIRD_EYE_TOKEN :: string
  Decimal_of_str :: "string \<Rightarrow> decimal option"
  Decimal_of_seq :: "json list \<Rightarrow> decimal option"
  int_of_str :: "string \<Rightarrow> int option"
  float_of_str :: "string \<Rightarrow> pyfloat option"
  float_of_big_int :: "int \<Rightarrow> pyfloat option"

definition or_raise :: "error \<Rightarrow> 'a option \<Rightarrow> error + 'a" where
  "or_raise e m = (case m of None \<Rightarrow> Inl e | Some x \<Rightarrow> Inr x)"

text \<open>
  The network: the answer to the \<open>n\<close>-th request of an invocation (counted from 0) is
  either a transport failure (\<open>None\<close>: the call raises) or a response with a status
  code and a body; \<open>body = None\<close> is a body that \<^verbatim>\<open>response.json()\<close> cannot decode. Every operation
  returns, beside its outcome, the list of the requests it has issued.
\<close>

record request =
  verb :: string
  url :: string
  headers :: "(string \<times> string) list"

record response =
  status_code :: int
  body :: "json option"

type_synonym network = "nat \<Rightarrow> request \<Rightarrow> response option"

definition send :: "network \<Rightarrow> request list \<Rightarrow> request \<Rightarrow> (error + response) \<times> request list" where
  "send net trace req = (or_raise RequestException (net (length trace) req), trace @ [req])"

definition requests_get :: "network \<Rightarrow> request list \<Rightarrow> string \<Rightarrow> (error + response) \<times> request list" where
  "requests_get net trace u = send net trace \<lparr>verb = ''GET'', url = u, headers = []\<rparr>"

definition response_json :: "response \<Rightarrow> error + json" where
  "response_json resp = or_raise JSONDecodeError (body resp)"

section \<open>The Python operations the clients use\<close>

definition bind :: "error + 'a \<Rightarrow> ('a \<Rightarrow> error + 'b) \<Rightarrow> error + 'b" where
  "bind m f = (case m of Inl e \<Rightarrow> Inl e | Inr x \<Rightarrow> f x)"

fun join :: "string \<Rightarrow> string list \<Rightarrow> string" where
  "join sep [] = []"
| "join sep [x] = x"
| "join sep (x # y # ys) = x @ sep @ join sep (y # ys)"

fun is_substring :: "string \<Rightarrow> string \<Rightarrow> bool" where
  "is_substring p [] = (p = [])"
| "is_substring p (c # cs) = (take (length p) (c # cs) = p \<or> is_substring p cs)"

text \<open>\<^verbatim>\<open>key in obj\<close>: a key of a dict, an element of a list, a substring of a string.\<close>

fun py_contains :: "string \<Rightarrow> json \<Rightarrow> error + bool" where
  "py_contains k (JObj kvs) = Inr (k \<in> set (map fst kvs))"
| "py_contains k (JArr xs) = Inr (JStr k \<in> set xs)"
| "py_contains k (JStr s) = Inr (is_substring k s)"
| "py_contains k _ = Inl TypeError"

text \<open>\<^verbatim>\<open>obj[key]\<close> with a string key.\<close>

fun py_getitem :: "json \<Rightarrow> string \<Rightarrow> error + json" where
  "py_getitem (JObj kvs) k = (case map_of kvs k of None \<Rightarrow> Inl (KeyError k) | Some v \<Rightarrow> Inr v)"
| "py_getitem _ k = Inl TypeError"

text \<open>\<^verbatim>\<open>obj.get(key, default)\<close>: only a dict has the method.\<close>

fun py_get :: "json \<Rightarrow> string \<Rightarrow> json \<Rightarrow> error + json" where
  "py_get (JObj kvs) k d = (case map_of kvs k of None \<Rightarrow> Inr d | Some v \<Rightarrow> Inr v)"
| "py_get _ k d = Inl AttributeError"

fun py_items :: "json \<Rightarrow> error + (string \<times> json) list" where
  "py_items (JObj kvs) = Inr kvs"
| "py_items _ = Inl AttributeError"

fun float_truthy :: "pyfloat \<Rightarrow> bool" where
  "float_truthy (FFin r) = (r \<noteq> 0)"
| "float_truthy _ = True"

fun py_truthy :: "json \<Rightarrow> bool" where
  "py_truthy JNull = False"
| "py_truthy (JBool b) = b"
| "py_truthy (JInt i) = (i \<noteq> 0)"
| "py_truthy (JFloat f) = float_truthy f"
| "py_truthy (JStr s) = (s \<noteq> [])"
| "py_truthy (JArr xs) = (xs \<noteq> [])"
| "py_truthy (JObj kvs) = (kvs \<noteq> [])"

fun decimal_of_float :: "pyfloat \<Rightarrow> decimal" where
  "decimal_of_float (FFin r) = DFin r"
| "decimal_of_float (FInf b) = DInf b"
| "decimal_of_float FNaN = DNaN"

text \<open>\<^verbatim>\<open>Decimal(v)\<close>. The conversion of an integer or of a float is exact.\<close>

fun Decimal :: "pylib \<Rightarrow> json \<Rightarrow> error + decimal" where
  "Decimal lib (JInt i) = Inr (DFin (of_int i))"
| "Decimal lib (JFloat f) = Inr (decimal_of_float f)"
| "Decimal lib (JBool b) = Inr (DFin (if b then 1 else 0))"
| "Decimal lib (JStr s) = or_raise InvalidOperation (Decimal_of_str lib s)"
| "Decimal lib (JArr xs) = or_raise (ValueError Message) (Decimal_of_seq lib xs)"
| "Decimal lib JNull = Inl TypeError"
| "Decimal lib (JObj kvs) = Inl TypeError"

text \<open>\<^verbatim>\<open>d == 0\<close> on a decimal: comparing a signalling NaN raises.\<close>

fun decimal_is_zero :: "decimal \<Rightarrow> error + bool" where
  "decimal_is_zero (DFin r) = Inr (r = 0)"
| "decimal_is_zero (DInf b) = Inr False"
| "decimal_is_zero DNaN = Inr False"
| "decimal_is_zero DSNaN = Inl InvalidOperation"

text \<open>\<^verbatim>\<open>int(v)\<close>: a float is truncated towards zero.\<close>

fun int_of_float :: "pyfloat \<Rightarrow> error + int" where
  "int_of_float (FFin r) = Inr (if 0 \<le> r then \<lfloor>r\<rfloor> else \<lceil>r\<rceil>)"
| "int_of_float (FInf b) = Inl OverflowError"
| "int_of_float FNaN = Inl (ValueError Message)"

fun py_int :: "pylib \<Rightarrow> json \<Rightarrow> error + int" where
  "py_int lib (JInt i) = Inr i"
| "py_int lib (JFloat f) = int_of_float f"
| "py_int lib (JBool b) = Inr (if b then 1 else 0)"
| "py_int lib (JStr s) = or_raise (ValueError Message) (int_of_str lib s)"
| "py_int lib _ = Inl TypeError"

text \<open>
  \<^verbatim>\<open>float(v)\<close>: an integer of magnitude at most \<open>2^53\<close> is a double; a larger one is
  rounded, or overflows.
\<close>

fun py_float :: "pylib \<Rightarrow> json \<Rightarrow> error + pyfloat" where
  "py_float lib (JFloat f) = Inr f"
| "py_float lib (JInt i) =
     (if \<bar>i\<bar> \<le> 2 ^ 53 then Inr (FFin (of_int i))
      else or_raise OverflowError (float_of_big_int lib i))"
| "py_float lib (JBool b) = Inr (FFin (if b then 1 else 0))"
| "py_float lib (JStr s) = or_raise (ValueError Message) (float_of_str lib s)"
| "py_float lib _ = Inl TypeError"

text \<open>\<^verbatim>\<open>a > b\<close> on floats: false whenever a NaN is involved.\<close>

fun float_gt :: "pyfloat \<Rightarrow> pyfloat \<Rightarrow> bool" where
  "float_gt (FFin a) (FFin b) = (b < a)"
| "float_gt (FInf s) (FFin b) = s"
| "float_gt (FFin a) (FInf s) = (\<not> s)"
| "float_gt (FInf s) (FInf t) = (s \<and> \<not> t)"
| "float_gt FNaN _ = False"
| "float_gt _ FNaN = False"

section \<open>helpers.py\<close>

text \<open>
  \<^verbatim>\<open>is_solana_address\<close> returns \<^verbatim>\<open>True\<close> when the parser returns and catches the
  parser's \<^verbatim>\<open>ValueError\<close>, returning \<^verbatim>\<open>False\<close>. It is given the result type of a
  function that may raise so that its callers' handlers can be modelled as written.
\<close>

definition is_solana_address :: "pylib \<Rightarrow> string \<Rightarrow> error + bool" where
  "is_solana_address lib input_string =
     (case Pubkey_from_string lib input_string of
        Some _ \<Rightarrow> Inr True
      | None \<Rightarrow> Inr False)"

section \<open>dexscreener.py\<close>

text \<open>
  The leading underscore of the private methods is dropped. In
  \<^verbatim>\<open>_validate_token_address\<close> the verdict of \<^verbatim>\<open>is_solana_address\<close> is discarded; only
  a \<^verbatim>\<open>ValueError\<close> escaping from it is turned into \<^verbatim>\<open>InvalidSolanaAddress\<close>.
\<close>

definition validate_token_address :: "pylib \<Rightarrow> string \<Rightarrow> error + unit" where
  "validate_token_address lib token_address =
     (if token_address = [] then Inl NoPositionsError
      else (case is_solana_address lib token_address of
              Inl (ValueError _) \<Rightarrow> Inl (InvalidSolanaAddress token_address)
            | Inl e \<Rightarrow> Inl e
            | Inr _ \<Rightarrow> Inr ()))"

fun validate_each :: "pylib \<Rightarrow> string list \<Rightarrow> error + unit" where
  "validate_each lib [] = Inr ()"
| "validate_each lib (address # rest) =
     (case validate_token_address lib address of
        Inl e \<Rightarrow> Inl e
      | Inr _ \<Rightarrow> validate_each lib rest)"

definition validate_token_addresses :: "pylib \<Rightarrow> string list \<Rightarrow> error + unit" where
  "validate_token_addresses lib token_addresses =
     (if token_addresses = [] then Inl NoPositionsError
      else validate_each lib token_addresses)"

definition validate_response :: "response \<Rightarrow> error + unit" where
  "validate_response resp =
     (if status_code resp \<noteq> 200 then Inl (InvalidTokens NoArgs) else Inr ())"

definition call_api :: "pylib \<Rightarrow> network \<Rightarrow> string \<Rightarrow> (error + json) \<times> request list" where
  "call_api lib net token_address =
     (if token_address = [] then (Inl NoPositionsError, [])
      else
        (case is_solana_address lib token_address of
           Inl e \<Rightarrow> (Inl e, [])
         | Inr ok \<Rightarrow>
             if \<not> ok then (Inl (InvalidSolanaAddress token_address), [])
             else
               (case requests_get net []
                       (''https://api.dexscreener.com/latest/dex/tokens/:'' @ token_address @ '','') of
                  (r, trace) \<Rightarrow>
                    (bind r (\<lambda>resp.
                     bind (validate_response resp) (\<lambda>_. response_json resp)), trace))))"

fun check_each :: "pylib \<Rightarrow> string list \<Rightarrow> error + unit" where
  "check_each lib [] = Inr ()"
| "check_each lib (address # rest) =
     (case is_solana_address lib address of
        Inl e \<Rightarrow> Inl e
      | Inr ok \<Rightarrow>
          if \<not> ok then Inl (InvalidSolanaAddress address) else check_each lib rest)"

definition call_api_bulk ::
  "pylib \<Rightarrow> network \<Rightarrow> string list \<Rightarrow> (error + json) \<times> request list" where
  "call_api_bulk lib net token_addresses =
     (if token_addresses = [] then (Inl NoPositionsError, [])
      else
        (case check_each lib token_addresses of
           Inl e \<Rightarrow> (Inl e, [])
         | Inr _ \<Rightarrow>
             (case requests_get net []
                     (''https://api.dexscreener.com/token/'' @ join '','' token_addresses) of
                (r, trace) \<Rightarrow>
                  (bind r (\<lambda>resp.
                   bind (validate_response resp) (\<lambda>_. response_json resp)), trace))))"

text \<open>
  One pass of the loop of \<^verbatim>\<open>fetch_prices_dex\<close> after the request: the status check,
  the decoding of the body and the two conversions, in the order of the source.
\<close>

definition price_info_of_response :: "pylib \<Rightarrow> response \<Rightarrow> error + price_info" where
  "price_info_of_response lib resp =
     bind (validate_response resp) (\<lambda>_.
     bind (response_json resp) (\<lambda>data.
     bind (py_get data ''price'' (JInt 0)) (\<lambda>p.
     bind (Decimal lib p) (\<lambda>price.
     bind (py_get data ''liquidity'' (JInt 0)) (\<lambda>l.
     bind (Decimal lib l) (\<lambda>liquidity.
     Inr \<lparr>price_info.price = price, price_info.liquidity = liquidity\<rparr>))))))"

definition token_url :: "string \<Rightarrow> string" where
  "token_url address = ''https://api.dexscreener.com/token/'' @ address"

fun prices_dex_loop ::
  "pylib \<Rightarrow> network \<Rightarrow> string list \<Rightarrow> (string \<times> price_info) list \<Rightarrow> request list \<Rightarrow>
     (error + (string \<times> price_info) list) \<times> request list" where
  "prices_dex_loop lib net [] prices trace = (Inr prices, trace)"
| "prices_dex_loop lib net (address # rest) prices trace =
     (case is_solana_address lib address of
        Inl e \<Rightarrow> (Inl e, trace)
      | Inr ok \<Rightarrow>
          if \<not> ok then (Inl (InvalidSolanaAddress address), trace)
          else
            (case requests_get net trace (token_url address) of
               (r, trace') \<Rightarrow>
                 (case bind r (price_info_of_response lib) of
                    Inl e \<Rightarrow> (Inl e, trace')
                  | Inr info \<Rightarrow>
                      prices_dex_loop lib net rest (AList.update address info prices) trace')))"

definition fetch_prices_dex ::
  "pylib \<Rightarrow> network \<Rightarrow> string list \<Rightarrow> (error + (string \<times> price_info) list) \<times> request list" where
  "fetch_prices_dex lib net token_addresses =
     (if token_addresses = [] then (Inl NoPositionsError, [])
      else prices_dex_loop lib net token_addresses [] [])"

text \<open>
  The extraction of the six overview fields with their defaults and coercions. Both
  clients run the same six statements in the same order; only the key of the price
  differs (\<^verbatim>\<open>"price"\<close> here, \<^verbatim>\<open>"value"\<close> in \<^verbatim>\<open>birdeye.py\<close>).
\<close>

definition overview_fields :: "pylib \<Rightarrow> string \<Rightarrow> json \<Rightarrow> error + token_overview" where
  "overview_fields lib price_key data =
     bind (py_get data price_key (JInt 0)) (\<lambda>p.
     bind (Decimal lib p) (\<lambda>price.
     bind (py_get data ''symbol'' (JStr [])) (\<lambda>symbol.
     bind (py_get data ''decimals'' (JInt 0)) (\<lambda>d.
     bind (py_int lib d) (\<lambda>decimals.
     bind (py_get data ''lastTradeUnixTime'' (JInt 0)) (\<lambda>t.
     bind (py_int lib t) (\<lambda>last_trade_unix_time.
     bind (py_get data ''liquidity'' (JInt 0)) (\<lambda>l.
     bind (Decimal lib l) (\<lambda>liquidity.
     bind (py_get data ''supply'' (JInt 0)) (\<lambda>s.
     bind (Decimal lib s) (\<lambda>supply.
     Inr \<lparr>token_overview.price = price, symbol = symbol, decimals = decimals,
          lastTradeUnixTime = last_trade_unix_time, token_overview.liquidity = liquidity,
          supply = supply\<rparr>)))))))))))"

definition dex_fetch_token_overview ::
  "pylib \<Rightarrow> network \<Rightarrow> string \<Rightarrow> (error + token_overview) \<times> request list" where
  "dex_fetch_token_overview lib net address =
     (case is_solana_address lib address of
        Inl e \<Rightarrow> (Inl e, [])
      | Inr ok \<Rightarrow>
          if \<not> ok then (Inl (InvalidSolanaAddress address), [])
          else
            (case requests_get net [] (token_url address) of
               (r, trace) \<Rightarrow>
                 (bind r (\<lambda>resp.
                  bind (validate_response resp) (\<lambda>_.
                  bind (response_json resp) (\<lambda>data.
                  overview_fields lib ''price'' data))), trace)))"

text \<open>
  One pass of the loop of \<^verbatim>\<open>find_largest_pool_with_sol\<close> up to the comparison:
  \<open>Inr None\<close> when the entry does not pass the filter, \<open>Inr (Some f)\<close> when it passes
  and its liquidity in USD converts to the float \<open>f\<close>. The quote token is read only
  when the base token matches (\<^verbatim>\<open>and\<close> evaluates its second operand only then).
\<close>

definition examine :: "pylib \<Rightarrow> string \<Rightarrow> json \<Rightarrow> error + pyfloat option" where
  "examine lib address entry =
     bind (py_get entry ''baseToken'' (JObj [])) (\<lambda>base.
     bind (py_get base ''address'' JNull) (\<lambda>base_address.
     if base_address \<noteq> JStr address then Inr None
     else
       bind (py_getitem entry ''quoteToken'') (\<lambda>quote.
       bind (py_getitem quote ''address'') (\<lambda>quote_address.
       if quote_address \<noteq> JStr (SOL_MINT lib) then Inr None
       else
         bind (py_get entry ''liquidity'' (JObj [])) (\<lambda>liq.
         bind (py_get liq ''usd'' (JInt 0)) (\<lambda>usd.
         bind (py_float lib usd) (\<lambda>liquidity_usd.
         Inr (Some liquidity_usd))))))))"

fun pool_loop :: "pylib \<Rightarrow> string \<Rightarrow> json list \<Rightarrow> json \<Rightarrow> pyfloat \<Rightarrow> error + json" where
  "pool_loop lib address [] max_entry max_liquidity_usd = Inr max_entry"
| "pool_loop lib address (entry # rest) max_entry max_liquidity_usd =
     (case examine lib address entry of
        Inl e \<Rightarrow> Inl e
      | Inr None \<Rightarrow> pool_loop lib address rest max_entry max_liquidity_usd
      | Inr (Some liquidity_usd) \<Rightarrow>
          if float_gt liquidity_usd max_liquidity_usd
          then pool_loop lib address rest entry liquidity_usd
          else pool_loop lib address rest max_entry max_liquidity_usd)"

definition find_largest_pool_with_sol :: "pylib \<Rightarrow> json list \<Rightarrow> string \<Rightarrow> error + json" where
  "find_largest_pool_with_sol lib token_pairs address =
     pool_loop lib address token_pairs (JObj []) (FFin (- 1))"

section \<open>birdeye.py\<close>

definition bird_headers :: "pylib \<Rightarrow> (string \<times> string) list" where
  "bird_headers lib =
     [(''accept'', ''application/json''), (''x-chain'', ''solana''),
      (''X-API-KEY'', BIRD_EYE_TOKEN lib)]"

text \<open>\<^verbatim>\<open>str.upper\<close> on the ASCII letters; other characters are left as they are.\<close>

definition upper_char :: "char \<Rightarrow> char" where
  "upper_char c =
     (case map_of (zip ''abcdefghijklmnopqrstuvwxyz'' ''ABCDEFGHIJKLMNOPQRSTUVWXYZ'') c of
        None \<Rightarrow> c
      | Some u \<Rightarrow> u)"

definition make_api_call ::
  "pylib \<Rightarrow> network \<Rightarrow> request list \<Rightarrow> string \<Rightarrow> string \<Rightarrow> (error + response) \<times> request list" where
  "make_api_call lib net trace meth query_url =
     (if map upper_char meth = ''GET''
      then send net trace \<lparr>verb = ''GET'', url = query_url, headers = bird_headers lib\<rparr>
      else if map upper_char meth = ''POST''
      then send net trace \<lparr>verb = ''POST'', url = query_url, headers = bird_headers lib\<rparr>
      else (Inl (ValueError Message), trace))"

text \<open>
  One pass of the loop of \<^verbatim>\<open>fetch_prices\<close>: \<open>Inr None\<close> when the entry goes to the list
  of invalid tokens, \<open>Inr (Some info)\<close> when it is accepted.
\<close>

definition price_entry :: "pylib \<Rightarrow> json \<Rightarrow> error + price_info option" where
  "price_entry lib token_data =
     bind (py_contains ''value'' token_data) (\<lambda>has_value.
     bind (if has_value then py_contains ''liquidity'' token_data else Inr False) (\<lambda>both.
     if both then
       bind (py_getitem token_data ''value'') (\<lambda>v.
       bind (Decimal lib v) (\<lambda>p.
       bind (py_getitem token_data ''liquidity'') (\<lambda>l.
       bind (Decimal lib l) (\<lambda>q.
       Inr (Some \<lparr>price_info.price = p, price_info.liquidity = q\<rparr>)))))
     else Inr None))"

fun prices_loop ::
  "pylib \<Rightarrow> (string \<times> json) list \<Rightarrow> (string \<times> price_info) list \<Rightarrow> string list \<Rightarrow>
     error + (string \<times> price_info) list \<times> string list" where
  "prices_loop lib [] prices invalid_tokens = Inr (prices, invalid_tokens)"
| "prices_loop lib ((token_address, token_data) # rest) prices invalid_tokens =
     (case price_entry lib token_data of
        Inl e \<Rightarrow> Inl e
      | Inr (Some info) \<Rightarrow>
          prices_loop lib rest (AList.update token_address info prices) invalid_tokens
      | Inr None \<Rightarrow> prices_loop lib rest prices (invalid_tokens @ [token_address]))"

definition multi_price_url :: "string list \<Rightarrow> string" where
  "multi_price_url token_addresses =
     ''https://public-api.birdeye.so/public/multi_price?include_liquidity=true&list_address=''
       @ join ''%2C'' token_addresses"

definition fetch_prices ::
  "pylib \<Rightarrow> network \<Rightarrow> string list \<Rightarrow> (error + (string \<times> price_info) list) \<times> request list" where
  "fetch_prices lib net token_addresses =
     (if token_addresses = [] then (Inl NoPositionsError, [])
      else
        (case make_api_call lib net [] ''GET'' (multi_price_url token_addresses) of
           (r, trace) \<Rightarrow>
             (bind r (\<lambda>resp.
                if status_code resp = 200 then
                  bind (response_json resp) (\<lambda>data.
                  bind (py_getitem data ''data'') (\<lambda>d.
                  bind (py_items d) (\<lambda>entries.
                  bind (prices_loop lib entries [] []) (\<lambda>(prices, invalid_tokens).
                  if invalid_tokens \<noteq> [] then Inl (InvalidTokens (TokenList invalid_tokens))
                  else Inr prices))))
                else Inl (InvalidTokens NoArgs)), trace)))"

definition overview_url :: "string \<Rightarrow> string" where
  "overview_url address =
     ''https://public-api.birdeye.so/public/multi_price?include_liquidity=true&include_decimals=true&list_address=''
       @ address"

definition fetch_token_overview ::
  "pylib \<Rightarrow> network \<Rightarrow> string \<Rightarrow> (error + token_overview) \<times> request list" where
  "fetch_token_overview lib net address =
     (case is_solana_address lib address of
        Inl e \<Rightarrow> (Inl e, [])
      | Inr ok \<Rightarrow>
          if \<not> ok then (Inl (InvalidSolanaAddress address), [])
          else
            (case make_api_call lib net [] ''GET'' (overview_url address) of
               (r, trace) \<Rightarrow>
                 (bind r (\<lambda>resp.
                    if status_code resp = 200 then
                      bind (response_json resp) (\<lambda>j.
                      bind (py_getitem j ''data'') (\<lambda>data.
                      bind (py_get data address (JObj [])) (\<lambda>token_data.
                      if \<not> py_truthy token_data then Inl (InvalidTokens (Token address))
                      else
                        bind (overview_fields lib ''value'' token_data) (\<lambda>overview.
                        if decimals overview = 0 then Inl DecimalsNotFoundError
                        else
                          bind (decimal_is_zero (token_overview.liquidity overview)) (\<lambda>zero.
                          if zero then Inl (ValueError NO_LIQUDITY)
                          else Inr overview)))))
                    else Inl (InvalidTokens NoArgs)), trace)))"

section \<open>The wire formats\<close>

text \<open>
  The requests the two clients issue: DexScreener calls \<^verbatim>\<open>requests.get(url)\<close>,
  BirdEye goes through \<^verbatim>\<open>_make_api_call\<close> with its headers.
\<close>

definition get_request :: "string \<Rightarrow> request" where
  "get_request u = \<lparr>verb = ''GET'', url = u, headers = []\<rparr>"

definition bird_request :: "pylib \<Rightarrow> string \<Rightarrow> request" where
  "bird_request lib u = \<lparr>verb = ''GET'', url = u, headers = bird_headers lib\<rparr>"

text \<open>
  Section 6 of the specification fixes the shape of the payloads: the price, liquidity,
  decimals, trade time and supply of a token are JSON numbers, each of them optional.
  \<open>field kvs k d\<close> is the value of the key \<open>k\<close> in the object \<open>kvs\<close>, or the default
  \<open>d\<close>; a number is an integer or a finite float, \<open>number_value\<close> is its value and
  \<open>truncated\<close> the integer that \<^verbatim>\<open>int\<close> makes of it.
\<close>

definition field :: "(string \<times> json) list \<Rightarrow> string \<Rightarrow> json \<Rightarrow> json" where
  "field kvs k d = (case map_of kvs k of None \<Rightarrow> d | Some v \<Rightarrow> v)"

fun is_number :: "json \<Rightarrow> bool" where
  "is_number (JInt i) = True"
| "is_number (JFloat (FFin r)) = True"
| "is_number _ = False"

fun number_value :: "json \<Rightarrow> rat" where
  "number_value (JInt i) = of_int i"
| "number_value (JFloat (FFin r)) = r"
| "number_value _ = 0"

definition truncated :: "rat \<Rightarrow> int" where
  "truncated r = (if 0 \<le> r then \<lfloor>r\<rfloor> else \<lceil>r\<rceil>)"

text \<open>
  An overview payload of that shape, and the overview that the specification describes
  for it: every field taken from the payload, zero or the empty string where the payload
  has none.
\<close>

definition wire_overview :: "string \<Rightarrow> (string \<times> json) list \<Rightarrow> bool" where
  "wire_overview price_key kvs =
     list_all (\<lambda>(k, d). is_number (field kvs k d))
       [(price_key, JInt 0), (''decimals'', JInt 0), (''lastTradeUnixTime'', JInt 0),
        (''liquidity'', JInt 0), (''supply'', JInt 0)]"

definition overview_of :: "string \<Rightarrow> (string \<times> json) list \<Rightarrow> token_overview" where
  "overview_of price_key kvs =
     \<lparr>token_overview.price = DFin (number_value (field kvs price_key (JInt 0))),
      symbol = field kvs ''symbol'' (JStr []),
      decimals = truncated (number_value (field kvs ''decimals'' (JInt 0))),
      lastTradeUnixTime = truncated (number_value (field kvs ''lastTradeUnixTime'' (JInt 0))),
      token_overview.liquidity = DFin (number_value (field kvs ''liquidity'' (JInt 0))),
      supply = DFin (number_value (field kvs ''supply'' (JInt 0)))\<rparr>"

text \<open>
  For the per-address loop of \<^verbatim>\<open>fetch_prices_dex\<close>: \<open>served lib net n pre\<close> says that
  the addresses \<open>pre\<close>, requested from the \<open>n\<close>-th request on, are all valid and each is
  answered with a response from which the loop makes a \<open>PriceInfo\<close>;
  \<open>requests_for\<close> is the list of the requests for a list of addresses.
\<close>

fun served :: "pylib \<Rightarrow> network \<Rightarrow> nat \<Rightarrow> string list \<Rightarrow> bool" where
  "served lib net n [] = True"
| "served lib net n (address # rest) =
     (Pubkey_from_string lib address \<noteq> None \<and>
      (case net n (get_request (token_url address)) of
         None \<Rightarrow> False
       | Some resp \<Rightarrow>
           (case price_info_of_response lib resp of Inl e \<Rightarrow> False | Inr info \<Rightarrow> True)) \<and>
      served lib net (Suc n) rest)"

definition requests_for :: "string list \<Rightarrow> request list" where
  "requests_for addresses = map (\<lambda>a. get_request (token_url a)) addresses"

text \<open>
  An entry of BirdEye's multi-price answer. \<open>carries_both\<close> says that it has the keys
  \<^verbatim>\<open>value\<close> and \<^verbatim>\<open>liquidity\<close>; an entry of the wire shape is an object in which the
  two, when both are there, are numbers; \<open>info_of\<close> is the \<open>PriceInfo\<close> with the two
  decimal values.
\<close>

definition fields_of :: "json \<Rightarrow> (string \<times> json) list" where
  "fields_of e = (case e of JObj kvs \<Rightarrow> kvs | _ \<Rightarrow> [])"

definition carries_both :: "json \<Rightarrow> bool" where
  "carries_both e =
     (map_of (fields_of e) ''value'' \<noteq> None \<and> map_of (fields_of e) ''liquidity'' \<noteq> None)"

fun wire_entry :: "json \<Rightarrow> bool" where
  "wire_entry (JObj kvs) =
     (carries_both (JObj kvs) \<longrightarrow>
        is_number (field kvs ''value'' JNull) \<and> is_number (field kvs ''liquidity'' JNull))"
| "wire_entry _ = False"

definition info_of :: "json \<Rightarrow> price_info" where
  "info_of e =
     \<lparr>price_info.price = DFin (number_value (field (fields_of e) ''value'' JNull)),
      price_info.liquidity = DFin (number_value (field (fields_of e) ''liquidity'' JNull))\<rparr>"

text \<open>
  The trading pair of section 3 of the specification, and the pair that an entry of a
  pair listing denotes: an object whose \<^verbatim>\<open>baseToken\<close> and \<^verbatim>\<open>quoteToken\<close> are objects
  with a string \<^verbatim>\<open>address\<close>, and whose \<^verbatim>\<open>liquidity\<close>, if present, is an object whose
  \<^verbatim>\<open>usd\<close>, if present, is a number that a double holds exactly (absent liquidity
  counts as 0). \<open>matches\<close> is the filter of \<^verbatim>\<open>find_largest_pool_with_sol\<close> in these
  terms and \<open>usd\<close> the liquidity of an entry. The liquidity of a pair is a value of
  assets (glossary of the specification), so it is not negative: \<open>pair_record\<close> is an
  entry that denotes a pair with such a liquidity.
\<close>

record trading_pair =
  baseTokenAddress :: string
  quoteTokenAddress :: string
  liquidityUsd :: rat

fun exact_number :: "json \<Rightarrow> rat option" where
  "exact_number (JInt i) = (if \<bar>i\<bar> \<le> 2 ^ 53 then Some (of_int i) else None)"
| "exact_number (JFloat (FFin r)) = Some r"
| "exact_number _ = None"

definition address_of :: "(string \<times> json) list \<Rightarrow> string \<Rightarrow> string option" where
  "address_of kvs token =
     (case map_of kvs token of
        Some (JObj t) \<Rightarrow> (case map_of t ''address'' of Some (JStr s) \<Rightarrow> Some s | _ \<Rightarrow> None)
      | _ \<Rightarrow> None)"

definition usd_of :: "(string \<times> json) list \<Rightarrow> rat option" where
  "usd_of kvs =
     (case map_of kvs ''liquidity'' of
        None \<Rightarrow> Some 0
      | Some (JObj l) \<Rightarrow> (case map_of l ''usd'' of None \<Rightarrow> Some 0 | Some v \<Rightarrow> exact_number v)
      | Some _ \<Rightarrow> None)"

fun pair_view :: "json \<Rightarrow> trading_pair option" where
  "pair_view (JObj kvs) =
     (case (address_of kvs ''baseToken'', address_of kvs ''quoteToken'', usd_of kvs) of
        (Some b, Some q, Some u) \<Rightarrow>
          Some \<lparr>baseTokenAddress = b, quoteTokenAddress = q, liquidityUsd = u\<rparr>
      | _ \<Rightarrow> None)"
| "pair_view _ = None"

definition matches :: "pylib \<Rightarrow> string \<Rightarrow> json \<Rightarrow> bool" where
  "matches lib address e =
     (case pair_view e of
        None \<Rightarrow> False
      | Some p \<Rightarrow> baseTokenAddress p = address \<and> quoteTokenAddress p = SOL_MINT lib)"

definition usd :: "json \<Rightarrow> rat" where
  "usd e = (case pair_view e of None \<Rightarrow> 0 | Some p \<Rightarrow> liquidityUsd p)"

definition pair_record :: "json \<Rightarrow> bool" where
  "pair_record e = (pair_view e \<noteq> None \<and> 0 \<le> usd e)"

text \<open>
  The selection in the words of the specification: among the entries that pass the
  filter, the first one that attains the largest liquidity; the empty object when none
  passes.
\<close>

definition first_max :: "('a \<Rightarrow> rat) \<Rightarrow> 'a list \<Rightarrow> 'a" where
  "first_max f xs = hd (filter (\<lambda>x. f x = Max (f ` set xs)) xs)"

definition best_pair :: "pylib \<Rightarrow> json list \<Rightarrow> string \<Rightarrow> json" where
  "best_pair lib token_pairs address =
     (let survivors = filter (matches lib address) token_pairs
      in if survivors = [] then JObj [] else first_max usd survivors)"

section \<open>A concrete environment\<close>

text \<open>
  An environment on which the theorems below are instantiated: a parser that accepts
  two token addresses and the SOL mint, and numeric constructors that reject every text,
  sequence and oversized integer (none of the instances hands them one).
\<close>

definition sample_lib :: pylib where
  "sample_lib =
     \<lparr>Pubkey_from_string = (\<lambda>s. if s \<in> set [''TokenA'', ''TokenB'', ''So11'']
                                 then Some () else None),
      SOL_MINT = ''So11'',
      BIRD_EYE_TOKEN = ''key'',
      Decimal_of_str = (\<lambda>s. None),
      Decimal_of_seq = (\<lambda>xs. None),
      int_of_str = (\<lambda>s. None),
      float_of_str = (\<lambda>s. None),
      float_of_big_int = (\<lambda>i. None)\<rparr>"

text \<open>A network that answers every request with the given status and body.\<close>

definition answering :: "int \<Rightarrow> json \<Rightarrow> network" where
  "answering code j = (\<lambda>n req. Some \<lparr>status_code = code, body = Some j\<rparr>)"

text \<open>Two BirdEye payloads: one priced token, and an overview of \<open>TokenA\<close>.\<close>

definition priced_body :: "string \<Rightarrow> json" where
  "priced_body address =
     JObj [(''data'', JObj [(address, JObj [(''value'', JInt 1), (''liquidity'', JInt 2)])])]"

definition overview_body :: "int \<Rightarrow> int \<Rightarrow> json" where
  "overview_body d l =
     JObj [(''data'', JObj [(''TokenA'',
        JObj [(''value'', JInt 3), (''decimals'', JInt d), (''liquidity'', JInt l)])])]"

text \<open>A network that answers with status 200 before its \<open>k\<close>-th request only.\<close>

definition failing_from :: "nat \<Rightarrow> int \<Rightarrow> json \<Rightarrow> network" where
  "failing_from k code j =
     (\<lambda>n req. Some \<lparr>status_code = (if n < k then 200 else code), body = Some j\<rparr>)"

text \<open>Two multi-price payloads: both entries complete, and one entry without liquidity.\<close>

definition two_entries :: json where
  "two_entries =
     JObj [(''data'', JObj
       [(''TokenA'', JObj [(''value'', JInt 1), (''liquidity'', JFloat (FFin (5 / 2)))]),
        (''TokenB'', JObj [(''value'', JInt 4), (''liquidity'', JInt 8)])])]"

definition one_incomplete :: json where
  "one_incomplete =
     JObj [(''data'', JObj
       [(''TokenA'', JObj [(''value'', JInt 1), (''liquidity'', JInt 2)]),
        (''TokenB'', JObj [(''value'', JInt 4)])])]"

text \<open>Entries of a pair listing: liquidity as an integer, as a float, and absent.\<close>

definition pair :: "string \<Rightarrow> string \<Rightarrow> int \<Rightarrow> json" where
  "pair b q u =
     JObj [(''baseToken'', JObj [(''address'', JStr b)]),
           (''quoteToken'', JObj [(''address'', JStr q)]),
           (''liquidity'', JObj [(''usd'', JInt u)])]"

definition pair_f :: "string \<Rightarrow> string \<Rightarrow> rat \<Rightarrow> json" where
  "pair_f b q u =
     JObj [(''baseToken'', JObj [(''address'', JStr b)]),
           (''quoteToken'', JObj [(''address'', JStr q)]),
           (''liquidity'', JObj [(''usd'', JFloat (FFin u))])]"

definition pair_without_liquidity :: "string \<Rightarrow> string \<Rightarrow> json" where
  "pair_without_liquidity b q =
     JObj [(''baseToken'', JObj [(''address'', JStr b)]),
           (''quoteToken'', JObj [(''address'', JStr q)])]"

section \<open>Auxiliary facts\<close>

lemma bind_Inl: "bind (Inl e) f = Inl e"
  by (simp add: bind_def)

lemma bind_Inr: "bind (Inr x) f = f x"
  by (simp add: bind_def)

lemma bind_eq_Inl: "bind m f = Inl e \<longleftrightarrow> m = Inl e \<or> (\<exists>x. m = Inr x \<and> f x = Inl e)"
  by (cases m) (simp_all add: bind_def)

lemma bind_eq_Inr: "bind m f = Inr y \<longleftrightarrow> (\<exists>x. m = Inr x \<and> f x = Inr y)"
  by (cases m) (simp_all add: bind_def)

lemma or_raise_Inl: "or_raise e m = Inl e' \<Longrightarrow> e' = e"
  by (cases m) (simp_all add: or_raise_def)

lemma py_get_errors: "py_get j k d = Inl e \<Longrightarrow> e = AttributeError"
  by (cases j) (simp_all split: option.splits)

lemma Decimal_errors:
  "Decimal lib v = Inl e \<Longrightarrow> e \<in> {TypeError, InvalidOperation, ValueError Message}"
  by (cases v) (auto dest: or_raise_Inl)

lemma int_of_float_errors:
  "int_of_float f = Inl e \<Longrightarrow> e \<in> {OverflowError, ValueError Message}"
  by (cases f) auto

lemma py_int_errors:
  "py_int lib v = Inl e \<Longrightarrow> e \<in> {TypeError, OverflowError, ValueError Message}"
  by (cases v) (auto dest: or_raise_Inl int_of_float_errors)

lemma overview_fields_errors:
  "overview_fields lib k data = Inl e \<Longrightarrow>
     e \<in> {AttributeError, TypeError, InvalidOperation, OverflowError, ValueError Message}"
  unfolding overview_fields_def bind_eq_Inl
  by (auto dest!: py_get_errors Decimal_errors py_int_errors)

lemma is_solana_address_eq:
  "is_solana_address lib s = Inr (Pubkey_from_string lib s \<noteq> None)"
  by (simp add: is_solana_address_def split: option.split)

lemma py_get_field: "py_get (JObj kvs) k d = Inr (field kvs k d)"
  by (simp add: field_def split: option.split)

lemma Decimal_number: "is_number v \<Longrightarrow> Decimal lib v = Inr (DFin (number_value v))"
  by (induction v rule: is_number.induct) simp_all

lemma py_int_number: "is_number v \<Longrightarrow> py_int lib v = Inr (truncated (number_value v))"
  by (induction v rule: is_number.induct) (simp_all add: truncated_def)

lemma overview_fields_wire:
  "wire_overview k kvs \<Longrightarrow> overview_fields lib k (JObj kvs) = Inr (overview_of k kvs)"
  by (simp add: wire_overview_def overview_fields_def overview_of_def py_get_field
      Decimal_number py_int_number bind_Inr del: py_get.simps)

lemma make_api_call_GET:
  "make_api_call lib net [] ''GET'' u =
     (or_raise RequestException (net 0 (bird_request lib u)), [bird_request lib u])"
  by (simp add: make_api_call_def send_def bird_request_def upper_char_def)

lemma requests_get_eq:
  "requests_get net [] u = (or_raise RequestException (net 0 (get_request u)), [get_request u])"
  by (simp add: requests_get_def send_def get_request_def)

lemma dex_overview_errors:
  "fst (dex_fetch_token_overview lib net address) = Inl e \<Longrightarrow>
     e \<in> {InvalidSolanaAddress address, RequestException, InvalidTokens NoArgs, JSONDecodeError,
          AttributeError, TypeError, InvalidOperation, OverflowError, ValueError Message}"
  by (auto simp: dex_fetch_token_overview_def is_solana_address_eq requests_get_eq bind_eq_Inl
      validate_response_def response_json_def
      dest!: or_raise_Inl overview_fields_errors split: if_splits)

text \<open>BirdEye's \<^verbatim>\<open>fetch_prices\<close> never consults the address parser.\<close>

lemma Decimal_parser: "Decimal (lib\<lparr>Pubkey_from_string := p\<rparr>) = Decimal lib"
proof
  fix v
  show "Decimal (lib\<lparr>Pubkey_from_string := p\<rparr>) v = Decimal lib v"
    by (cases v) simp_all
qed

lemma price_entry_parser:
  "price_entry (lib\<lparr>Pubkey_from_string := p\<rparr>) e = price_entry lib e"
  by (simp add: price_entry_def Decimal_parser cong: if_cong)

lemma prices_loop_parser:
  "prices_loop (lib\<lparr>Pubkey_from_string := p\<rparr>) entries prices invalid =
   prices_loop lib entries prices invalid"
  by (induction entries arbitrary: prices invalid)
    (auto simp: price_entry_parser split: sum.splits option.splits)

lemma fetch_prices_parser:
  "fetch_prices (lib\<lparr>Pubkey_from_string := p\<rparr>) net token_addresses =
   fetch_prices lib net token_addresses"
  by (simp add: fetch_prices_def make_api_call_def bird_headers_def prices_loop_parser
      cong: if_cong)

text \<open>The loop of \<^verbatim>\<open>fetch_prices_dex\<close> runs through a served prefix of the list.\<close>

lemma requests_get_trace:
  "requests_get net trace u =
     (or_raise RequestException (net (length trace) (get_request u)), trace @ [get_request u])"
  by (simp add: requests_get_def send_def get_request_def)

lemma prices_dex_loop_served:
  "served lib net (length trace) pre \<Longrightarrow>
     \<exists>prices'. prices_dex_loop lib net (pre @ rest) prices trace =
       prices_dex_loop lib net rest prices' (trace @ requests_for pre)"
proof (induction pre arbitrary: prices trace)
  case Nil
  then show ?case by (auto simp: requests_for_def)
next
  case (Cons a pre)
  from Cons.prems obtain resp info where
    valid: "Pubkey_from_string lib a \<noteq> None"
    and resp: "net (length trace) (get_request (token_url a)) = Some resp"
    and info: "price_info_of_response lib resp = Inr info"
    and rest: "served lib net (Suc (length trace)) pre"
    by (auto split: option.splits sum.splits)
  have step: "prices_dex_loop lib net ((a # pre) @ rest) prices trace =
      prices_dex_loop lib net (pre @ rest) (AList.update a info prices)
        (trace @ [get_request (token_url a)])"
    using valid resp info
    by (simp add: is_solana_address_eq requests_get_trace or_raise_def bind_Inr)
  from rest have "served lib net (length (trace @ [get_request (token_url a)])) pre"
    by simp
  from Cons.IH [OF this, of "AList.update a info prices"] step
  show ?case by (auto simp: requests_for_def)
qed

lemma price_info_of_response_status:
  "status_code resp \<noteq> 200 \<Longrightarrow> price_info_of_response lib resp = Inl (InvalidTokens NoArgs)"
  by (simp add: price_info_of_response_def validate_response_def bind_Inl)

text \<open>The loop of \<^verbatim>\<open>fetch_prices\<close> on entries of the wire shape.\<close>

lemma key_present: "(k \<in> fst ` set kvs) = (map_of kvs k \<noteq> None)"
  by (simp add: map_of_eq_None_iff)

lemma py_getitem_field:
  "map_of kvs k \<noteq> None \<Longrightarrow> py_getitem (JObj kvs) k = Inr (field kvs k d)"
  by (auto simp: field_def)

lemma price_entry_wire:
  "wire_entry e \<Longrightarrow>
     price_entry lib e = Inr (if carries_both e then Some (info_of e) else None)"
proof (cases e)
  case (JObj kvs)
  assume w: "wire_entry e"
  show ?thesis
  proof (cases "carries_both e")
    case True
    with w JObj show ?thesis
      by (simp add: price_entry_def carries_both_def fields_of_def info_of_def bind_Inr
          key_present py_getitem_field [where d = JNull] Decimal_number
          del: py_getitem.simps)
  next
    case False
    with JObj show ?thesis
      by (auto simp: price_entry_def carries_both_def fields_of_def bind_Inr key_present)
  qed
qed simp_all

lemma update_fresh: "k \<notin> fst ` set ps \<Longrightarrow> AList.update k v ps = ps @ [(k, v)]"
  by (induction ps) auto

lemma prices_loop_wire:
  "list_all (\<lambda>(a, e). wire_entry e) entries \<Longrightarrow> distinct (map fst entries) \<Longrightarrow>
   fst ` set prices \<inter> fst ` set entries = {} \<Longrightarrow>
     prices_loop lib entries prices invalid =
       Inr (prices @ map (\<lambda>(a, e). (a, info_of e)) (filter (\<lambda>(a, e). carries_both e) entries),
            invalid @ map fst (filter (\<lambda>(a, e). \<not> carries_both e) entries))"
proof (induction entries arbitrary: prices invalid)
  case Nil
  then show ?case by simp
next
  case (Cons x entries)
  obtain a e where x: "x = (a, e)" by (cases x)
  from Cons.prems x have w: "wire_entry e" and ws: "list_all (\<lambda>(a, e). wire_entry e) entries"
    and d: "distinct (map fst entries)" and fresh: "a \<notin> fst ` set prices"
    and a: "a \<notin> fst ` set entries" and disj: "fst ` set prices \<inter> fst ` set entries = {}"
    by auto
  show ?case
  proof (cases "carries_both e")
    case True
    from disj a have "fst ` set (prices @ [(a, info_of e)]) \<inter> fst ` set entries = {}"
      by auto
    from Cons.IH [OF ws d this] True w fresh show ?thesis
      by (simp add: x price_entry_wire update_fresh)
  next
    case False
    from Cons.IH [OF ws d disj] False w show ?thesis
      by (simp add: x price_entry_wire)
  qed
qed

lemma fetch_prices_200:
  "token_addresses \<noteq> [] \<Longrightarrow>
   net 0 (bird_request lib (multi_price_url token_addresses)) = Some resp \<Longrightarrow>
   status_code resp = 200 \<Longrightarrow> body resp = Some (JObj payload) \<Longrightarrow>
   map_of payload ''data'' = Some (JObj entries) \<Longrightarrow>
     fst (fetch_prices lib net token_addresses) =
       bind (prices_loop lib entries [] []) (\<lambda>(prices, invalid_tokens).
         if invalid_tokens \<noteq> [] then Inl (InvalidTokens (TokenList invalid_tokens))
         else Inr prices)"
  by (simp add: fetch_prices_def make_api_call_GET or_raise_def bind_Inr response_json_def)

text \<open>An entry without price or liquidity is marked invalid and makes the call fail.\<close>

lemma price_entry_lacking:
  "\<not> carries_both (JObj kvs) \<Longrightarrow> price_entry lib (JObj kvs) = Inr None"
  by (auto simp: price_entry_def carries_both_def fields_of_def bind_Inr key_present)

lemma prices_loop_marks:
  "prices_loop lib entries prices invalid = Inr (ps, bad) \<Longrightarrow>
     set invalid \<subseteq> set bad \<and>
     (\<forall>(a, e) \<in> set entries. price_entry lib e = Inr None \<longrightarrow> a \<in> set bad)"
proof (induction entries arbitrary: prices invalid)
  case Nil
  then show ?case by simp
next
  case (Cons x entries)
  obtain a e where x: "x = (a, e)" by (cases x)
  show ?case
  proof (cases "price_entry lib e")
    case (Inl err)
    with Cons.prems x show ?thesis by simp
  next
    case (Inr r)
    show ?thesis
    proof (cases r)
      case None
      with Inr Cons.prems x
      have "prices_loop lib entries prices (invalid @ [a]) = Inr (ps, bad)" by simp
      from Cons.IH [OF this] None Inr x show ?thesis by auto
    next
      case (Some info)
      with Inr Cons.prems x
      have "prices_loop lib entries (AList.update a info prices) invalid = Inr (ps, bad)"
        by simp
      from Cons.IH [OF this] Some Inr x show ?thesis by auto
    qed
  qed
qed

lemma py_contains_errors: "py_contains k j = Inl e \<Longrightarrow> e = TypeError"
  by (cases j) simp_all

lemma py_getitem_errors: "py_getitem j k = Inl e \<Longrightarrow> e = TypeError \<or> e = KeyError k"
  by (cases j) (auto split: option.splits)

lemma price_entry_errors:
  "price_entry lib e = Inl err \<Longrightarrow>
     err \<in> {TypeError, KeyError ''value'', KeyError ''liquidity'', InvalidOperation,
            ValueError Message}"
  by (auto simp: price_entry_def bind_eq_Inl
      dest!: py_contains_errors py_getitem_errors Decimal_errors split: if_splits)

lemma prices_loop_errors:
  "prices_loop lib entries prices invalid = Inl err \<Longrightarrow>
     err \<in> {TypeError, KeyError ''value'', KeyError ''liquidity'', InvalidOperation,
            ValueError Message}"
proof (induction entries arbitrary: prices invalid)
  case Nil
  then show ?case by simp
next
  case (Cons x entries)
  obtain a e where x: "x = (a, e)" by (cases x)
  show ?case
  proof (cases "price_entry lib e")
    case (Inl err')
    with Cons.prems x have "err' = err" by simp
    with Inl price_entry_errors [of lib e err] show ?thesis by simp
  next
    case (Inr r)
    with Cons.prems x Cons.IH show ?thesis by (cases r) auto
  qed
qed

lemma fetch_prices_marks:
  assumes "token_addresses \<noteq> []"
    and "net 0 (bird_request lib (multi_price_url token_addresses)) = Some resp"
    and "status_code resp = 200"
    and "body resp = Some (JObj payload)"
    and "map_of payload ''data'' = Some (JObj entries)"
    and "(a, JObj kvs) \<in> set entries"
    and "\<not> carries_both (JObj kvs)"
  shows "fst (fetch_prices lib net token_addresses) \<noteq> Inr prices"
    and "fst (fetch_prices lib net token_addresses) = Inl (InvalidTokens (TokenList bad)) \<Longrightarrow>
      a \<in> set bad"
proof -
  note run = fetch_prices_200 [where net = net and lib = lib, OF assms(1-5)]
  have none: "price_entry lib (JObj kvs) = Inr None"
    using assms(7) by (rule price_entry_lacking)
  show "fst (fetch_prices lib net token_addresses) \<noteq> Inr prices"
  proof (cases "prices_loop lib entries [] []")
    case (Inl err)
    with run show ?thesis by (simp add: bind_Inl)
  next
    case (Inr r)
    obtain ps iv where r: "r = (ps, iv)" by (cases r)
    from prices_loop_marks [of lib entries "[]" "[]" ps iv] Inr r assms(6) none
    have "a \<in> set iv" by auto
    then have "iv \<noteq> []" by auto
    with run Inr r show ?thesis by (simp add: bind_Inr)
  qed
  show "a \<in> set bad"
    if "fst (fetch_prices lib net token_addresses) = Inl (InvalidTokens (TokenList bad))"
  proof (cases "prices_loop lib entries [] []")
    case (Inl err)
    have "err \<noteq> InvalidTokens (TokenList bad)"
      using prices_loop_errors [OF Inl] by auto
    with run Inl that show ?thesis by (simp add: bind_Inl)
  next
    case (Inr r)
    obtain ps iv where r: "r = (ps, iv)" by (cases r)
    from prices_loop_marks [of lib entries "[]" "[]" ps iv] Inr r assms(6) none
    have "a \<in> set iv" by auto
    with run Inr r that show ?thesis by (auto simp: bind_Inr split: if_splits)
  qed
qed


text \<open>The loop of \<^verbatim>\<open>find_largest_pool_with_sol\<close> computes the first maximum.\<close>

lemma py_float_exact: "exact_number v = Some r \<Longrightarrow> py_float lib v = Inr (FFin r)"
  by (induction v rule: exact_number.induct) (auto split: if_splits)

lemma examine_view:
  "pair_view e = Some p \<Longrightarrow>
     examine lib address e =
       Inr (if baseTokenAddress p = address \<and> quoteTokenAddress p = SOL_MINT lib
            then Some (FFin (liquidityUsd p)) else None)"
proof (cases e)
  case (JObj kvs)
  assume v: "pair_view e = Some p"
  with JObj obtain b q u where
    b: "address_of kvs ''baseToken'' = Some b" and q: "address_of kvs ''quoteToken'' = Some q"
    and u: "usd_of kvs = Some u"
    and p: "p = \<lparr>baseTokenAddress = b, quoteTokenAddress = q, liquidityUsd = u\<rparr>"
    by (auto split: option.splits)
  from b obtain bt where bt: "map_of kvs ''baseToken'' = Some (JObj bt)"
    "map_of bt ''address'' = Some (JStr b)"
    by (auto simp: address_of_def split: option.splits json.splits)
  from q obtain qt where qt: "map_of kvs ''quoteToken'' = Some (JObj qt)"
    "map_of qt ''address'' = Some (JStr q)"
    by (auto simp: address_of_def split: option.splits json.splits)
  have liq: "bind (py_get (JObj kvs) ''liquidity'' (JObj [])) (\<lambda>liq.
      bind (py_get liq ''usd'' (JInt 0)) (\<lambda>usd. bind (py_float lib usd) (\<lambda>f. Inr (Some f)))) =
      Inr (Some (FFin u))"
    using u
    by (auto simp: usd_of_def bind_Inr py_float_exact split: option.splits json.splits)
  show ?thesis
    using bt qt liq by (simp add: JObj examine_def bind_Inr p)
qed simp_all

lemma first_max_Cons:
  "first_max f (e # xs) =
     (if filter (\<lambda>x. f e < f x) xs = [] then e
      else first_max f (filter (\<lambda>x. f e < f x) xs))"
proof (cases "filter (\<lambda>x. f e < f x) xs = []")
  case True
  then have le: "\<forall>x \<in> set xs. f x \<le> f e"
    by (auto simp: filter_empty_conv)
  have "Max (f ` set (e # xs)) = f e"
    by (rule Max_eqI) (use le in auto)
  with True show ?thesis by (simp add: first_max_def)
next
  case False
  define S where "S = filter (\<lambda>x. f e < f x) xs"
  define M where "M = Max (f ` set S)"
  from False have ne: "S \<noteq> []" by (simp add: S_def)
  then have "M \<in> f ` set S" unfolding M_def by (intro Max_in) auto
  then have gt: "f e < M" by (auto simp: S_def)
  have ub: "y \<le> M" if "y \<in> f ` set (e # xs)" for y
  proof -
    from that consider "y = f e" | x where "x \<in> set xs" "y = f x" by auto
    then show ?thesis
    proof cases
      case 1
      with gt show ?thesis by simp
    next
      case 2
      show ?thesis
      proof (cases "f e < f x")
        case True
        with 2 have "y \<in> f ` set S" by (auto simp: S_def)
        then show ?thesis unfolding M_def by (intro Max_ge) auto
      next
        case False
        with 2 gt show ?thesis by simp
      qed
    qed
  qed
  have "M \<in> f ` set (e # xs)"
    using \<open>M \<in> f ` set S\<close> by (auto simp: S_def)
  with ub have max: "Max (f ` set (e # xs)) = M"
    by (intro Max_eqI) auto
  have "filter (\<lambda>x. f x = M) S = filter (\<lambda>x. f x = M) xs"
    unfolding S_def filter_filter using gt by (intro filter_cong) auto
  with gt max False show ?thesis
    by (simp add: first_max_def S_def [symmetric] M_def [symmetric])
qed

lemma first_max_in:
  assumes "xs \<noteq> []"
  shows "first_max f xs \<in> set xs \<and> f (first_max f xs) = Max (f ` set xs)"
proof -
  from assms have "Max (f ` set xs) \<in> f ` set xs" by (intro Max_in) auto
  then have "filter (\<lambda>x. f x = Max (f ` set xs)) xs \<noteq> []"
    by (auto simp: filter_empty_conv)
  then have "first_max f xs \<in> set (filter (\<lambda>x. f x = Max (f ` set xs)) xs)"
    unfolding first_max_def by (rule hd_in_set)
  then show ?thesis by simp
qed

lemma pool_loop_best:
  "list_all (\<lambda>e. pair_view e \<noteq> None) token_pairs \<Longrightarrow>
     pool_loop lib address token_pairs max_entry (FFin m) =
       Inr (if filter (\<lambda>e. matches lib address e \<and> m < usd e) token_pairs = [] then max_entry
            else first_max usd (filter (\<lambda>e. matches lib address e \<and> m < usd e) token_pairs))"
proof (induction token_pairs arbitrary: max_entry m)
  case Nil
  then show ?case by simp
next
  case (Cons e token_pairs)
  from Cons.prems obtain p where p: "pair_view e = Some p"
    and rest: "list_all (\<lambda>e. pair_view e \<noteq> None) token_pairs"
    by auto
  note ex = examine_view [OF p, of lib address]
  show ?case
  proof (cases "matches lib address e \<and> m < usd e")
    case False
    with p ex have skip: "pool_loop lib address (e # token_pairs) max_entry (FFin m) =
        pool_loop lib address token_pairs max_entry (FFin m)"
      by (auto simp: matches_def usd_def)
    from False Cons.IH [OF rest, of max_entry m] show ?thesis
      by (auto simp: skip simp del: pool_loop.simps)
  next
    case True
    with p ex have step: "pool_loop lib address (e # token_pairs) max_entry (FFin m) =
        pool_loop lib address token_pairs e (FFin (usd e))"
      by (auto simp: matches_def usd_def)
    have same: "filter (\<lambda>x. matches lib address x \<and> m < usd x \<and> usd e < usd x) token_pairs =
        filter (\<lambda>x. matches lib address x \<and> usd e < usd x) token_pairs"
      using True by (intro filter_cong) auto
    from True Cons.IH [OF rest, of e "usd e"] show ?thesis
      by (simp add: step first_max_Cons same del: pool_loop.simps)
  qed
qed

lemma pair_view_pair:
  "\<bar>u\<bar> \<le> 2 ^ 53 \<Longrightarrow> pair_view (pair b q u) =
     Some \<lparr>baseTokenAddress = b, quoteTokenAddress = q, liquidityUsd = of_int u\<rparr>"
  by (simp add: pair_def address_of_def usd_of_def)

lemma pair_view_pair_f:
  "pair_view (pair_f b q u) =
     Some \<lparr>baseTokenAddress = b, quoteTokenAddress = q, liquidityUsd = u\<rparr>"
  by (simp add: pair_f_def address_of_def usd_of_def)

lemma pair_view_pair_without_liquidity:
  "pair_view (pair_without_liquidity b q) =
     Some \<lparr>baseTokenAddress = b, quoteTokenAddress = q, liquidityUsd = 0\<rparr>"
  by (simp add: pair_without_liquidity_def address_of_def usd_of_def)

lemma pair_record_above_sentinel:
  "list_all pair_record token_pairs \<Longrightarrow>
     filter (\<lambda>e. matches lib address e \<and> - 1 < usd e) token_pairs =
     filter (matches lib address) token_pairs"
  by (intro filter_cong) (auto simp: list_all_iff pair_record_def)

lemma pair_record_view:
  "list_all pair_record token_pairs \<Longrightarrow> list_all (\<lambda>e. pair_view e \<noteq> None) token_pairs"
  by (simp add: list_all_iff pair_record_def)

section \<open>Properties\<close>

text \<open>
  C9. For every non-empty string, the DexScreener client's private validator
  \<^verbatim>\<open>_validate_token_address\<close> returns normally, whatever the parser says about the
  string: \<^verbatim>\<open>is_solana_address\<close> answers with a boolean and never lets a
  \<^verbatim>\<open>ValueError\<close> escape, so the handler that would raise \<^verbatim>\<open>InvalidSolanaAddress\<close> is
  never entered and an unparseable address passes silently.
\<close>

theorem validate_token_address_accepts_nonempty:
  "token_address \<noteq> [] \<Longrightarrow>
     validate_token_address lib token_address = Inr () \<and>
     (\<forall>b. is_solana_address lib token_address \<noteq> Inl (ValueError b)) \<and>
     (\<forall>a. validate_token_address lib token_address \<noteq> Inl (InvalidSolanaAddress a))"
  by (simp add: validate_token_address_def is_solana_address_def split: option.split)

theorem validate_token_address_accepts_nonempty_witness:
  "''not-an-address'' \<noteq> [] \<and>
   Pubkey_from_string sample_lib ''not-an-address'' = None \<and>
   validate_token_address sample_lib ''not-an-address'' = Inr ()"
  using validate_token_address_accepts_nonempty [of "''not-an-address''" sample_lib]
  by (simp add: sample_lib_def)

text \<open>
  C5, as the code has it. An empty list given to a batch fetch (\<^verbatim>\<open>fetch_prices\<close> of
  BirdEye, \<^verbatim>\<open>fetch_prices_dex\<close> and the private \<^verbatim>\<open>_call_api_bulk\<close> of DexScreener)
  fails with \<open>NoPositionsError\<close> and no request is issued, and so does an empty string
  given to DexScreener's private \<^verbatim>\<open>_call_api\<close>. The two \<^verbatim>\<open>fetch_token_overview\<close> operations have no emptiness
  check: an empty string goes to the address gate like any other string, and when the
  parser rejects it the call fails with \<open>InvalidSolanaAddress\<close>, again without a request.
\<close>

theorem empty_input:
  "fetch_prices lib net [] = (Inl NoPositionsError, []) \<and>
   fetch_prices_dex lib net [] = (Inl NoPositionsError, []) \<and>
   call_api_bulk lib net [] = (Inl NoPositionsError, []) \<and>
   call_api lib net [] = (Inl NoPositionsError, []) \<and>
   (Pubkey_from_string lib [] = None \<longrightarrow>
      fetch_token_overview lib net [] = (Inl (InvalidSolanaAddress []), []) \<and>
      dex_fetch_token_overview lib net [] = (Inl (InvalidSolanaAddress []), []))"
  by (simp add: fetch_prices_def fetch_prices_dex_def call_api_bulk_def call_api_def
      fetch_token_overview_def dex_fetch_token_overview_def is_solana_address_eq)

theorem empty_input_witness:
  "Pubkey_from_string sample_lib [] = None \<and>
   fetch_token_overview sample_lib (answering 200 JNull) [] =
     (Inl (InvalidSolanaAddress []), []) \<and>
   dex_fetch_token_overview sample_lib (answering 200 JNull) [] =
     (Inl (InvalidSolanaAddress []), [])"
  using empty_input [of sample_lib "answering 200 JNull"]
  by (simp add: sample_lib_def)

text \<open>
  C5 as stated fails: with the empty string, neither overview operation fails with
  \<open>NoPositionsError\<close>.
\<close>

theorem empty_string_overview_counterexample:
  "fst (fetch_token_overview sample_lib (answering 200 JNull) []) \<noteq> Inl NoPositionsError \<and>
   fst (dex_fetch_token_overview sample_lib (answering 200 JNull) []) \<noteq> Inl NoPositionsError"
  by (simp add: fetch_token_overview_def dex_fetch_token_overview_def is_solana_address_eq
      sample_lib_def)

text \<open>
  C7. The DexScreener \<^verbatim>\<open>fetch_token_overview\<close> applies neither zero check: whatever the
  address and the answer of the network, it fails neither with \<open>DecimalsNotFoundError\<close>
  nor with a liquidity error (the \<open>NoLiquidityError\<close> of the specification, or the
  \<open>ValueError\<close> that BirdEye raises); and for a valid address and a 200 answer whose
  payload has the wire shape it returns the overview built from the payload with zero and
  empty defaults, also when the decimals or the liquidity come out as 0.
\<close>

theorem dex_overview_best_effort:
  "fst (dex_fetch_token_overview lib net address) \<noteq> Inl DecimalsNotFoundError \<and>
   fst (dex_fetch_token_overview lib net address) \<noteq> Inl NoLiquidityError \<and>
   fst (dex_fetch_token_overview lib net address) \<noteq> Inl (ValueError NO_LIQUDITY) \<and>
   (Pubkey_from_string lib address \<noteq> None \<and>
    net 0 (get_request (token_url address)) = Some resp \<and>
    status_code resp = 200 \<and> body resp = Some (JObj kvs) \<and> wire_overview ''price'' kvs \<longrightarrow>
      dex_fetch_token_overview lib net address =
        (Inr (overview_of ''price'' kvs), [get_request (token_url address)]))"
proof -
  have never: "fst (dex_fetch_token_overview lib net address) \<noteq> Inl e"
    if "e \<in> {DecimalsNotFoundError, NoLiquidityError, ValueError NO_LIQUDITY}" for e
    using that dex_overview_errors [of lib net address e] by auto
  have built: "dex_fetch_token_overview lib net address =
        (Inr (overview_of ''price'' kvs), [get_request (token_url address)])"
    if "Pubkey_from_string lib address \<noteq> None"
      and "net 0 (get_request (token_url address)) = Some resp"
      and "status_code resp = 200" and "body resp = Some (JObj kvs)"
      and "wire_overview ''price'' kvs"
    using that
    by (simp add: dex_fetch_token_overview_def is_solana_address_eq requests_get_eq or_raise_def
        bind_Inr validate_response_def response_json_def overview_fields_wire)
  from never built show ?thesis by blast
qed

theorem dex_overview_best_effort_witness:
  "Pubkey_from_string sample_lib ''TokenA'' \<noteq> None \<and>
   answering 200 (JObj [(''price'', JInt 7), (''decimals'', JInt 0)]) 0
       (get_request (token_url ''TokenA'')) =
     Some \<lparr>status_code = 200, body = Some (JObj [(''price'', JInt 7), (''decimals'', JInt 0)])\<rparr> \<and>
   wire_overview ''price'' [(''price'', JInt 7), (''decimals'', JInt 0)] \<and>
   fst (dex_fetch_token_overview sample_lib
          (answering 200 (JObj [(''price'', JInt 7), (''decimals'', JInt 0)])) ''TokenA'') =
     Inr \<lparr>token_overview.price = DFin 7, symbol = JStr [], decimals = 0, lastTradeUnixTime = 0,
          token_overview.liquidity = DFin 0, supply = DFin 0\<rparr>"
  using dex_overview_best_effort [of sample_lib
      "answering 200 (JObj [(''price'', JInt 7), (''decimals'', JInt 0)])" "''TokenA''"
      "\<lparr>status_code = 200, body = Some (JObj [(''price'', JInt 7), (''decimals'', JInt 0)])\<rparr>"
      "[(''price'', JInt 7), (''decimals'', JInt 0)]"]
  by (simp add: sample_lib_def answering_def wire_overview_def overview_of_def field_def
      truncated_def)

text \<open>
  C3, as the code has it. In BirdEye's \<^verbatim>\<open>fetch_token_overview\<close>, for a valid address
  and a 200 answer that holds a non-empty entry of the wire shape for the address, the
  fields are extracted with zero defaults and then checked in this order: decimals equal
  to 0 fails with \<open>DecimalsNotFoundError\<close>, whatever the other fields are; otherwise
  liquidity equal to 0 fails with the built-in \<open>ValueError\<close> carrying the constant
  \<open>NO_LIQUDITY\<close>; otherwise the overview populated from the payload is returned.
\<close>

theorem bird_overview_validation:
  assumes "Pubkey_from_string lib address \<noteq> None"
    and "net 0 (bird_request lib (overview_url address)) = Some resp"
    and "status_code resp = 200"
    and "body resp = Some (JObj payload)"
    and "map_of payload ''data'' = Some (JObj entries)"
    and "map_of entries address = Some (JObj kvs)"
    and "kvs \<noteq> []"
    and "wire_overview ''value'' kvs"
  shows "fst (fetch_token_overview lib net address) =
     (if decimals (overview_of ''value'' kvs) = 0 then Inl DecimalsNotFoundError
      else if token_overview.liquidity (overview_of ''value'' kvs) = DFin 0
      then Inl (ValueError NO_LIQUDITY)
      else Inr (overview_of ''value'' kvs))"
proof -
  have liq: "token_overview.liquidity (overview_of ''value'' kvs) =
      DFin (number_value (field kvs ''liquidity'' (JInt 0)))"
    by (simp add: overview_of_def)
  show ?thesis
    using assms
    by (simp add: fetch_token_overview_def is_solana_address_eq make_api_call_GET or_raise_def
        bind_Inr bind_Inl response_json_def overview_fields_wire liq)
qed

theorem bird_overview_validation_witness:
  "Pubkey_from_string sample_lib ''TokenA'' \<noteq> None \<and>
   wire_overview ''value''
     [(''value'', JInt 3), (''decimals'', JInt 5), (''liquidity'', JInt 100)] \<and>
   fst (fetch_token_overview sample_lib (answering 200 (overview_body 5 100)) ''TokenA'') =
     Inr \<lparr>token_overview.price = DFin 3, symbol = JStr [], decimals = 5, lastTradeUnixTime = 0,
          token_overview.liquidity = DFin 100, supply = DFin 0\<rparr>"
  using bird_overview_validation [of sample_lib "''TokenA''"
      "answering 200 (overview_body 5 100)"
      "\<lparr>status_code = 200, body = Some (overview_body 5 100)\<rparr>"
      "[(''data'', JObj [(''TokenA'',
        JObj [(''value'', JInt 3), (''decimals'', JInt 5), (''liquidity'', JInt 100)])])]"
      "[(''TokenA'',
        JObj [(''value'', JInt 3), (''decimals'', JInt 5), (''liquidity'', JInt 100)])]"
      "[(''value'', JInt 3), (''decimals'', JInt 5), (''liquidity'', JInt 100)]"]
  by (simp add: sample_lib_def answering_def overview_body_def wire_overview_def overview_of_def
      field_def truncated_def)

text \<open>
  C3 as stated fails on the kind of the second failure: with decimals 5 and liquidity 0
  the call raises \<open>ValueError\<close>, not \<open>NoLiquidityError\<close>.
\<close>

theorem no_liquidity_error_counterexample:
  "fst (fetch_token_overview sample_lib (answering 200 (overview_body 5 0)) ''TokenA'') =
     Inl (ValueError NO_LIQUDITY) \<and>
   fst (fetch_token_overview sample_lib (answering 200 (overview_body 5 0)) ''TokenA'') \<noteq>
     Inl NoLiquidityError"
  by (simp add: fetch_token_overview_def is_solana_address_eq make_api_call_GET or_raise_def
      bind_Inr bind_Inl response_json_def sample_lib_def answering_def overview_body_def
      overview_fields_def)

text \<open>
  C4, as the code has it. For a string that the parser rejects, both
  \<^verbatim>\<open>fetch_token_overview\<close> operations fail with \<open>InvalidSolanaAddress\<close> and issue no
  request, and so does \<^verbatim>\<open>fetch_prices_dex\<close> when the string is the first address of
  the list. BirdEye's \<^verbatim>\<open>fetch_prices\<close> does not validate addresses: its outcome and its
  requests are the same whatever the parser says.
\<close>

theorem invalid_address_gate:
  "Pubkey_from_string lib address = None \<Longrightarrow>
     fetch_token_overview lib net address = (Inl (InvalidSolanaAddress address), []) \<and>
     dex_fetch_token_overview lib net address = (Inl (InvalidSolanaAddress address), []) \<and>
     fetch_prices_dex lib net (address # rest) = (Inl (InvalidSolanaAddress address), []) \<and>
     fetch_prices (lib\<lparr>Pubkey_from_string := p\<rparr>) net token_addresses =
       fetch_prices lib net token_addresses"
  by (simp add: fetch_token_overview_def dex_fetch_token_overview_def fetch_prices_dex_def
      is_solana_address_eq fetch_prices_parser)

theorem invalid_address_gate_witness:
  "Pubkey_from_string sample_lib ''not-an-address'' = None \<and>
   fetch_token_overview sample_lib (answering 200 JNull) ''not-an-address'' =
     (Inl (InvalidSolanaAddress ''not-an-address''), []) \<and>
   fetch_prices_dex sample_lib (answering 200 JNull) [''not-an-address'', ''TokenA''] =
     (Inl (InvalidSolanaAddress ''not-an-address''), [])"
  using invalid_address_gate [of sample_lib "''not-an-address''" "answering 200 JNull"
      "[''TokenA'']"]
  by (simp add: sample_lib_def)

text \<open>
  C4 as stated fails for BirdEye's \<^verbatim>\<open>fetch_prices\<close>: given an address that the parser
  rejects, it issues its request and returns the price the provider sends.
\<close>

theorem fetch_prices_unvalidated_counterexample:
  "Pubkey_from_string sample_lib ''not-an-address'' = None \<and>
   fetch_prices sample_lib (answering 200 (priced_body ''not-an-address''))
       [''not-an-address''] =
     (Inr [(''not-an-address'', \<lparr>price_info.price = DFin 1, price_info.liquidity = DFin 2\<rparr>)],
      [bird_request sample_lib (multi_price_url [''not-an-address''])])"
  by (simp add: fetch_prices_def make_api_call_GET or_raise_def bind_Inr response_json_def
      sample_lib_def answering_def priced_body_def price_entry_def)

text \<open>
  C8, as the code has it. \<^verbatim>\<open>fetch_prices_dex\<close> processes the addresses in order and
  stops at the first failure. When the addresses before \<open>a\<close> have been served (so \<open>a\<close> is the first that can
  fail): if \<open>a\<close> is invalid the call fails with \<open>InvalidSolanaAddress a\<close> and the requests
  issued are those for the addresses before \<open>a\<close>, none for \<open>a\<close> or a later address; if
  \<open>a\<close> is valid and its request is answered with a status other than 200 the call fails
  at once with \<open>InvalidTokens\<close>, no request being issued for a later address. In both
  cases the outcome is the failure alone: no partial mapping is returned.
\<close>

theorem fetch_prices_dex_fail_fast:
  assumes "served lib net 0 pre"
  shows "(Pubkey_from_string lib a = None \<longrightarrow>
            fetch_prices_dex lib net (pre @ a # post) =
              (Inl (InvalidSolanaAddress a), requests_for pre)) \<and>
         (Pubkey_from_string lib a \<noteq> None \<and>
          net (length pre) (get_request (token_url a)) = Some resp \<and>
          status_code resp \<noteq> 200 \<longrightarrow>
            fetch_prices_dex lib net (pre @ a # post) =
              (Inl (InvalidTokens NoArgs), requests_for (pre @ [a])))"
proof -
  from assms have "served lib net (length ([] :: request list)) pre" by simp
  from prices_dex_loop_served [OF this, of "a # post" "[]"]
  obtain prices' where loop: "prices_dex_loop lib net (pre @ a # post) [] [] =
      prices_dex_loop lib net (a # post) prices' (requests_for pre)"
    by auto
  have len: "length (requests_for pre) = length pre"
    by (simp add: requests_for_def)
  have "fetch_prices_dex lib net (pre @ a # post) =
      prices_dex_loop lib net (a # post) prices' (requests_for pre)"
    using loop by (simp add: fetch_prices_dex_def)
  then show ?thesis
    by (simp add: is_solana_address_eq requests_get_trace len or_raise_def bind_Inr
        price_info_of_response_status requests_for_def)
qed

theorem fetch_prices_dex_fail_fast_witness:
  "served sample_lib (failing_from 1 500 (JObj [])) 0 [''TokenA''] \<and>
   fetch_prices_dex sample_lib (failing_from 1 500 (JObj []))
       [''TokenA'', ''not-an-address'', ''TokenB''] =
     (Inl (InvalidSolanaAddress ''not-an-address''), [get_request (token_url ''TokenA'')]) \<and>
   fetch_prices_dex sample_lib (failing_from 1 500 (JObj []))
       [''TokenA'', ''TokenB'', ''So11''] =
     (Inl (InvalidTokens NoArgs),
      [get_request (token_url ''TokenA''), get_request (token_url ''TokenB'')])"
proof -
  have s: "served sample_lib (failing_from 1 500 (JObj [])) 0 [''TokenA'']"
    by (simp add: sample_lib_def failing_from_def price_info_of_response_def
        validate_response_def response_json_def or_raise_def bind_Inr)
  from fetch_prices_dex_fail_fast [OF s, where a = "''not-an-address''"
      and post = "[''TokenB'']"]
    fetch_prices_dex_fail_fast [OF s, where a = "''TokenB''" and post = "[''So11'']"
      and resp = "\<lparr>status_code = 500, body = Some (JObj [])\<rparr>"] s
  show ?thesis
    by (simp add: sample_lib_def failing_from_def requests_for_def)
qed

text \<open>
  C8 as stated fails: a list with an invalid address does not fail with
  \<open>InvalidSolanaAddress\<close> when the request for an earlier address is answered with a
  status other than 200; the call fails with \<open>InvalidTokens\<close> there and never reaches
  the invalid address.
\<close>

theorem earlier_http_failure_counterexample:
  "Pubkey_from_string sample_lib ''not-an-address'' = None \<and>
   fetch_prices_dex sample_lib (failing_from 0 500 (JObj [])) [''TokenA'', ''not-an-address''] =
     (Inl (InvalidTokens NoArgs), [get_request (token_url ''TokenA'')])"
  by (simp add: fetch_prices_dex_def is_solana_address_eq requests_get_trace or_raise_def
      bind_Inr price_info_of_response_status sample_lib_def failing_from_def)

text \<open>
  C1. BirdEye's \<^verbatim>\<open>fetch_prices\<close> is all or nothing over the batch. For a non-empty
  list of addresses and a 200 answer whose \<^verbatim>\<open>data\<close> object has entries of the wire
  shape: if every entry carries both \<^verbatim>\<open>value\<close> and \<^verbatim>\<open>liquidity\<close>, the result maps
  every address of the answer, in order, to the \<open>PriceInfo\<close> with those two decimal
  values; if some entry lacks one of them, the call fails with \<open>InvalidTokens\<close> carrying
  exactly the addresses of the entries that do, and no mapping is returned.
\<close>

theorem fetch_prices_all_or_nothing:
  assumes "token_addresses \<noteq> []"
    and "net 0 (bird_request lib (multi_price_url token_addresses)) = Some resp"
    and "status_code resp = 200"
    and "body resp = Some (JObj payload)"
    and "map_of payload ''data'' = Some (JObj entries)"
    and "distinct (map fst entries)"
    and "list_all (\<lambda>(a, e). wire_entry e) entries"
  shows "fst (fetch_prices lib net token_addresses) =
     (if list_all (\<lambda>(a, e). carries_both e) entries
      then Inr (map (\<lambda>(a, e). (a, info_of e)) entries)
      else Inl (InvalidTokens (TokenList
             (map fst (filter (\<lambda>(a, e). \<not> carries_both e) entries)))))"
proof -
  have loop: "prices_loop lib entries [] [] =
      Inr (map (\<lambda>(a, e). (a, info_of e)) (filter (\<lambda>(a, e). carries_both e) entries),
           map fst (filter (\<lambda>(a, e). \<not> carries_both e) entries))"
    using prices_loop_wire [OF assms(7) assms(6), of "[]" lib "[]"] by simp
  have all: "filter (\<lambda>(a, e). carries_both e) entries = entries"
    "filter (\<lambda>(a, e). \<not> carries_both e) entries = []"
    if "list_all (\<lambda>(a, e). carries_both e) entries"
    using that by (auto simp: list_all_iff filter_id_conv filter_empty_conv)
  have some: "filter (\<lambda>(a, e). \<not> carries_both e) entries \<noteq> []"
    if "\<not> list_all (\<lambda>(a, e). carries_both e) entries"
    using that by (auto simp: list_all_iff filter_empty_conv)
  from fetch_prices_200 [where net = net and lib = lib, OF assms(1-5)] all some
  show ?thesis
    by (simp add: loop bind_Inr)
qed

theorem fetch_prices_all_or_nothing_witness:
  "fst (fetch_prices sample_lib (answering 200 two_entries) [''TokenA'', ''TokenB'']) =
     Inr [(''TokenA'', \<lparr>price_info.price = DFin 1, price_info.liquidity = DFin (5 / 2)\<rparr>),
          (''TokenB'', \<lparr>price_info.price = DFin 4, price_info.liquidity = DFin 8\<rparr>)] \<and>
   fst (fetch_prices sample_lib (answering 200 one_incomplete) [''TokenA'', ''TokenB'']) =
     Inl (InvalidTokens (TokenList [''TokenB'']))"
proof -
  have a: "fst (fetch_prices sample_lib (answering 200 two_entries) [''TokenA'', ''TokenB'']) =
     Inr [(''TokenA'', \<lparr>price_info.price = DFin 1, price_info.liquidity = DFin (5 / 2)\<rparr>),
          (''TokenB'', \<lparr>price_info.price = DFin 4, price_info.liquidity = DFin 8\<rparr>)]"
    using fetch_prices_all_or_nothing [of "[''TokenA'', ''TokenB'']"
      "answering 200 two_entries" sample_lib
      "\<lparr>status_code = 200, body = Some two_entries\<rparr>"
      "[(''data'', JObj
       [(''TokenA'', JObj [(''value'', JInt 1), (''liquidity'', JFloat (FFin (5 / 2)))]),
        (''TokenB'', JObj [(''value'', JInt 4), (''liquidity'', JInt 8)])])]"
      "[(''TokenA'', JObj [(''value'', JInt 1), (''liquidity'', JFloat (FFin (5 / 2)))]),
        (''TokenB'', JObj [(''value'', JInt 4), (''liquidity'', JInt 8)])]"]
    by (simp add: answering_def two_entries_def carries_both_def fields_of_def info_of_def
        field_def)
  have b: "fst (fetch_prices sample_lib (answering 200 one_incomplete)
        [''TokenA'', ''TokenB'']) =
     Inl (InvalidTokens (TokenList [''TokenB'']))"
    using fetch_prices_all_or_nothing [of "[''TokenA'', ''TokenB'']"
      "answering 200 one_incomplete" sample_lib
      "\<lparr>status_code = 200, body = Some one_incomplete\<rparr>"
      "[(''data'', JObj
       [(''TokenA'', JObj [(''value'', JInt 1), (''liquidity'', JInt 2)]),
        (''TokenB'', JObj [(''value'', JInt 4)])])]"
      "[(''TokenA'', JObj [(''value'', JInt 1), (''liquidity'', JInt 2)]),
        (''TokenB'', JObj [(''value'', JInt 4)])]"]
    by (simp add: answering_def one_incomplete_def carries_both_def fields_of_def info_of_def
        field_def)
  from a b show ?thesis by simp
qed

text \<open>
  C2. A response without price or liquidity must produce no \<open>PriceInfo\<close> and mark the
  token invalid. BirdEye's \<^verbatim>\<open>fetch_prices\<close> does so: an entry without liquidity makes
  the call fail with \<open>InvalidTokens\<close> naming the token. DexScreener's
  \<^verbatim>\<open>fetch_prices_dex\<close>, documented as ensuring that each token has a price, does not:
  on a 200 answer with neither price nor liquidity it returns a \<open>PriceInfo\<close> with both
  fields 0 for the token.
\<close>

theorem fetch_prices_dex_absent_fields:
  "fst (fetch_prices sample_lib (answering 200 one_incomplete) [''TokenA'', ''TokenB'']) =
     Inl (InvalidTokens (TokenList [''TokenB''])) \<and>
   fetch_prices_dex sample_lib (answering 200 (JObj [])) [''TokenA''] =
     (Inr [(''TokenA'', \<lparr>price_info.price = DFin 0, price_info.liquidity = DFin 0\<rparr>)],
      [get_request (token_url ''TokenA'')])"
  by (simp add: fetch_prices_def make_api_call_GET fetch_prices_dex_def is_solana_address_eq
      requests_get_trace or_raise_def bind_Inr price_entry_def price_info_of_response_def
      validate_response_def response_json_def sample_lib_def answering_def one_incomplete_def)

text \<open>
  C6. \<^verbatim>\<open>find_largest_pool_with_sol\<close> takes a list of pair records and an address and
  no network (it performs no I/O). For every list of pair records and every address, it
  considers only the pairs whose base-token address is the given address and whose
  quote-token address is the SOL mint; among those it returns the one with the largest
  liquidity in USD, the first encountered among equals; it returns the empty object when
  no pair matches.
\<close>

theorem largest_pool_with_sol:
  assumes "list_all pair_record token_pairs"
  shows "find_largest_pool_with_sol lib token_pairs address =
           Inr (best_pair lib token_pairs address)"
  using pool_loop_best [OF pair_record_view [OF assms], of lib address "JObj []" "- 1"]
    pair_record_above_sentinel [OF assms, of lib address]
  by (simp add: find_largest_pool_with_sol_def best_pair_def)

theorem largest_pool_with_sol_witness:
  "list_all pair_record
     [pair ''TokenA'' ''So11'' 10, pair ''TokenA'' ''So11'' 50, pair_f ''TokenA'' ''So11'' 50,
      pair ''TokenA'' ''Other'' 1000] \<and>
   find_largest_pool_with_sol sample_lib
     [pair ''TokenA'' ''So11'' 10, pair ''TokenA'' ''So11'' 50, pair_f ''TokenA'' ''So11'' 50,
      pair ''TokenA'' ''Other'' 1000] ''TokenA'' = Inr (pair ''TokenA'' ''So11'' 50) \<and>
   find_largest_pool_with_sol sample_lib [pair ''TokenA'' ''Other'' 1000] ''TokenA'' =
     Inr (JObj [])"
proof -
  have wf: "list_all pair_record
     [pair ''TokenA'' ''So11'' 10, pair ''TokenA'' ''So11'' 50, pair_f ''TokenA'' ''So11'' 50,
      pair ''TokenA'' ''Other'' 1000]"
    "list_all pair_record [pair ''TokenA'' ''Other'' 1000]"
    by (simp_all add: pair_record_def usd_def pair_view_pair pair_view_pair_f)
  have ne: "pair_f ''TokenA'' ''So11'' 50 \<noteq> pair ''TokenA'' ''So11'' 50"
    by (simp add: pair_def pair_f_def)
  have best: "best_pair sample_lib
     [pair ''TokenA'' ''So11'' 10, pair ''TokenA'' ''So11'' 50, pair_f ''TokenA'' ''So11'' 50,
      pair ''TokenA'' ''Other'' 1000] ''TokenA'' = pair ''TokenA'' ''So11'' 50"
    "best_pair sample_lib [pair ''TokenA'' ''Other'' 1000] ''TokenA'' = JObj []"
    by (simp_all add: best_pair_def first_max_def matches_def usd_def pair_view_pair
        pair_view_pair_f sample_lib_def)
  from largest_pool_with_sol [OF wf(1), of sample_lib "''TokenA''"]
    largest_pool_with_sol [OF wf(2), of sample_lib "''TokenA''"] wf(1) best
  show ?thesis by simp
qed

text \<open>
  C10. In \<^verbatim>\<open>find_largest_pool_with_sol\<close> the running maximum starts at \<open>-1\<close>, so for
  every list of pair records a pair that passes the filter is not lost for having a
  liquidity of 0 or no liquidity field: whenever a pair passes the filter the result is
  a matching pair of at least its liquidity; when every matching pair has liquidity 0
  (given or defaulted) the first of them is returned; and the empty result is produced
  only when no pair at all passes the filter.
\<close>

theorem zero_liquidity_pool:
  assumes "list_all pair_record token_pairs"
  shows "(\<forall>e \<in> set token_pairs. matches lib address e \<longrightarrow>
            (\<exists>r \<in> set token_pairs.
               find_largest_pool_with_sol lib token_pairs address = Inr r \<and>
               matches lib address r \<and> usd e \<le> usd r \<and> r \<noteq> JObj [])) \<and>
         ((\<exists>e \<in> set token_pairs. matches lib address e) \<and>
          (\<forall>e \<in> set token_pairs. matches lib address e \<longrightarrow> usd e = 0) \<longrightarrow>
            find_largest_pool_with_sol lib token_pairs address =
              Inr (hd (filter (matches lib address) token_pairs))) \<and>
         (find_largest_pool_with_sol lib token_pairs address = Inr (JObj []) \<longleftrightarrow>
            (\<forall>e \<in> set token_pairs. \<not> matches lib address e))"
proof -
  define S where "S = filter (matches lib address) token_pairs"
  have res: "find_largest_pool_with_sol lib token_pairs address =
      Inr (if S = [] then JObj [] else first_max usd S)"
    using pool_loop_best [OF pair_record_view [OF assms], of lib address "JObj []" "- 1"]
      pair_record_above_sentinel [OF assms, of lib address]
    by (simp add: find_largest_pool_with_sol_def S_def)
  have empty: "S = [] \<longleftrightarrow> (\<forall>e \<in> set token_pairs. \<not> matches lib address e)"
    by (auto simp: S_def filter_empty_conv)
  have chosen: "first_max usd S \<in> set token_pairs \<and> matches lib address (first_max usd S) \<and>
      usd e \<le> usd (first_max usd S) \<and> first_max usd S \<noteq> JObj []"
    if e: "e \<in> set token_pairs" "matches lib address e" for e
  proof -
    from e have eS: "e \<in> set S" by (simp add: S_def)
    then have "S \<noteq> []" by auto
    from first_max_in [OF this, of usd]
    have inS: "first_max usd S \<in> set S" and mx: "usd (first_max usd S) = Max (usd ` set S)"
      by simp_all
    from eS have "usd e \<le> Max (usd ` set S)" by (intro Max_ge) auto
    moreover from inS have "matches lib address (first_max usd S)"
      "first_max usd S \<in> set token_pairs"
      by (simp_all add: S_def)
    moreover from this(1) have "first_max usd S \<noteq> JObj []"
      by (auto simp: matches_def address_of_def)
    ultimately show ?thesis using mx by simp
  qed
  have first: "\<forall>e \<in> set token_pairs. matches lib address e \<longrightarrow>
            (\<exists>r \<in> set token_pairs.
               find_largest_pool_with_sol lib token_pairs address = Inr r \<and>
               matches lib address r \<and> usd e \<le> usd r \<and> r \<noteq> JObj [])"
  proof (intro ballI impI)
    fix e assume e: "e \<in> set token_pairs" "matches lib address e"
    then have "S \<noteq> []" by (auto simp: S_def filter_empty_conv)
    with res chosen [of e] e show "\<exists>r \<in> set token_pairs.
               find_largest_pool_with_sol lib token_pairs address = Inr r \<and>
               matches lib address r \<and> usd e \<le> usd r \<and> r \<noteq> JObj []"
      by auto
  qed
  have zeros: "find_largest_pool_with_sol lib token_pairs address =
              Inr (hd (filter (matches lib address) token_pairs))"
    if some: "\<exists>e \<in> set token_pairs. matches lib address e"
      and zero: "\<forall>e \<in> set token_pairs. matches lib address e \<longrightarrow> usd e = 0"
  proof -
    from some have ne: "S \<noteq> []" by (auto simp: S_def filter_empty_conv)
    from zero have z: "\<forall>x \<in> set S. usd x = 0" by (simp add: S_def)
    with ne have "usd ` set S = {0}" by (cases S) auto
    then have "Max (usd ` set S) = 0" by simp
    with z have "filter (\<lambda>x. usd x = Max (usd ` set S)) S = S"
      by (simp add: filter_id_conv)
    then have "first_max usd S = hd S" by (simp add: first_max_def)
    with res ne show ?thesis by (simp add: S_def)
  qed
  have last: "find_largest_pool_with_sol lib token_pairs address = Inr (JObj []) \<longleftrightarrow>
            (\<forall>e \<in> set token_pairs. \<not> matches lib address e)"
  proof (cases "S = []")
    case True
    with res empty show ?thesis by simp
  next
    case False
    then obtain e where "e \<in> set S" by (cases S) auto
    then have e: "e \<in> set token_pairs" "matches lib address e"
      by (simp_all add: S_def)
    from chosen [OF e] have "first_max usd S \<noteq> JObj []" by simp
    with res False empty show ?thesis by simp
  qed
  from first zeros last show ?thesis by blast
qed

theorem zero_liquidity_pool_witness:
  "list_all pair_record
     [pair ''TokenA'' ''Other'' 7, pair_without_liquidity ''TokenA'' ''So11'',
      pair ''TokenA'' ''So11'' 0] \<and>
   matches sample_lib ''TokenA'' (pair_without_liquidity ''TokenA'' ''So11'') \<and>
   usd (pair_without_liquidity ''TokenA'' ''So11'') = 0 \<and>
   find_largest_pool_with_sol sample_lib
     [pair ''TokenA'' ''Other'' 7, pair_without_liquidity ''TokenA'' ''So11'',
      pair ''TokenA'' ''So11'' 0] ''TokenA'' =
     Inr (pair_without_liquidity ''TokenA'' ''So11'') \<and>
   find_largest_pool_with_sol sample_lib [pair ''TokenA'' ''So11'' 0] ''TokenA'' =
     Inr (pair ''TokenA'' ''So11'' 0)"
proof -
  have wf: "list_all pair_record
     [pair ''TokenA'' ''Other'' 7, pair_without_liquidity ''TokenA'' ''So11'',
      pair ''TokenA'' ''So11'' 0]"
    "list_all pair_record [pair ''TokenA'' ''So11'' 0]"
    by (simp_all add: pair_record_def usd_def pair_view_pair pair_view_pair_without_liquidity)
  from zero_liquidity_pool [OF wf(1), of sample_lib "''TokenA''"]
    zero_liquidity_pool [OF wf(2), of sample_lib "''TokenA''"] wf(1)
  show ?thesis
    by (simp add: matches_def usd_def pair_view_pair pair_view_pair_without_liquidity
        sample_lib_def)
qed

end
